theory Spec2Isabelle
  imports Complex_Main "HOL-Library.Sublist" "HOL-Library.Log_Nat"
begin

section \<open>Python values\<close>

text \<open>
  The scoring engine of \<^verbatim>\<open>ResumeParser.py\<close> works on what \<^verbatim>\<open>json.loads\<close> returns:
  \<^verbatim>\<open>None\<close>, booleans, numbers, strings, lists and dictionaries. A dictionary is kept as an
  association list in insertion order, with distinct keys; a lookup is \<open>map_of\<close>.

  A number is the rational it denotes: Python's \<^verbatim>\<open>int\<close> and \<^verbatim>\<open>float\<close> are not told apart.
  The arithmetic of the education score and of the final score is read as exact arithmetic.
  The experience aggregator computes in binary floating point, with every result rounded to
  the nearest double (section \<open>Floating point\<close>); there numbers are taken finite and integers
  below \<open>2\<^sup>5\<^sup>3\<close>, where every integer is a double.

  A string is the list of its characters, each a code point below 256.
\<close>

datatype pyval =
    PNone
  | PBool bool
  | PNum rat
  | PStr string
  | PList "pyval list"
  | PDict "(string \<times> pyval) list"

datatype pyerror = AttributeError | TypeError | KeyError | IndexError | JSONDecodeError

text \<open>Truth value of an object, as \<^verbatim>\<open>not x\<close>, \<^verbatim>\<open>x or y\<close> and \<^verbatim>\<open>if x\<close> test it.\<close>

fun truthy :: "pyval \<Rightarrow> bool" where
  "truthy PNone = False"
| "truthy (PBool b) = b"
| "truthy (PNum r) = (r \<noteq> 0)"
| "truthy (PStr s) = (s \<noteq> [])"
| "truthy (PList l) = (l \<noteq> [])"
| "truthy (PDict d) = (d \<noteq> [])"

text \<open>\<^verbatim>\<open>d.get(key, default)\<close> on an object: only a dictionary has the method.\<close>

fun py_get :: "pyval \<Rightarrow> string \<Rightarrow> pyval \<Rightarrow> pyerror + pyval" where
  "py_get (PDict d) k dflt = Inr (case map_of d k of Some v \<Rightarrow> v | None \<Rightarrow> dflt)"
| "py_get _ k dflt = Inl AttributeError"

text \<open>A number in arithmetic: \<^verbatim>\<open>bool\<close> is a subclass of \<^verbatim>\<open>int\<close>.\<close>

fun num_of :: "pyval \<Rightarrow> rat option" where
  "num_of (PNum r) = Some r"
| "num_of (PBool b) = Some (if b then 1 else 0)"
| "num_of _ = None"

text \<open>The elements a \<^verbatim>\<open>for\<close> loop visits: a string yields its characters, a dictionary its keys.\<close>

fun py_iter :: "pyval \<Rightarrow> pyerror + pyval list" where
  "py_iter (PList l) = Inr l"
| "py_iter (PStr s) = Inr (map (\<lambda>c. PStr [c]) s)"
| "py_iter (PDict d) = Inr (map (\<lambda>kv. PStr (fst kv)) d)"
| "py_iter _ = Inl TypeError"

subsection \<open>Strings\<close>

text \<open>
  \<^verbatim>\<open>str.lower()\<close> on a character: the capitals A to Z and, above 127, the capitals U+00C0
  to U+00DE (U+00D7, the multiplication sign, is none) go to the character 32 places on.
\<close>

definition upper_chars :: "char list" where
  "upper_chars =
     ''ABCDEFGHIJKLMNOPQRSTUVWXYZ'' @
     [CHR 0xC0, CHR 0xC1, CHR 0xC2, CHR 0xC3, CHR 0xC4, CHR 0xC5, CHR 0xC6,
      CHR 0xC7, CHR 0xC8, CHR 0xC9, CHR 0xCA, CHR 0xCB, CHR 0xCC, CHR 0xCD,
      CHR 0xCE, CHR 0xCF, CHR 0xD0, CHR 0xD1, CHR 0xD2, CHR 0xD3, CHR 0xD4,
      CHR 0xD5, CHR 0xD6, CHR 0xD8, CHR 0xD9, CHR 0xDA, CHR 0xDB, CHR 0xDC,
      CHR 0xDD, CHR 0xDE]"

definition lower_chars :: "char list" where
  "lower_chars =
     ''abcdefghijklmnopqrstuvwxyz'' @
     [CHR 0xE0, CHR 0xE1, CHR 0xE2, CHR 0xE3, CHR 0xE4, CHR 0xE5, CHR 0xE6,
      CHR 0xE7, CHR 0xE8, CHR 0xE9, CHR 0xEA, CHR 0xEB, CHR 0xEC, CHR 0xED,
      CHR 0xEE, CHR 0xEF, CHR 0xF0, CHR 0xF1, CHR 0xF2, CHR 0xF3, CHR 0xF4,
      CHR 0xF5, CHR 0xF6, CHR 0xF8, CHR 0xF9, CHR 0xFA, CHR 0xFB, CHR 0xFC,
      CHR 0xFD, CHR 0xFE]"

definition lower_char :: "char \<Rightarrow> char" where
  "lower_char c = (case map_of (zip upper_chars lower_chars) c of Some d \<Rightarrow> d | None \<Rightarrow> c)"

definition py_lower :: "string \<Rightarrow> string" where
  "py_lower s = map lower_char s"

text \<open>\<^verbatim>\<open>x.lower()\<close> on an object: only a string has the method.\<close>

fun lower_of :: "pyval \<Rightarrow> pyerror + string" where
  "lower_of (PStr s) = Inr (py_lower s)"
| "lower_of _ = Inl AttributeError"

text \<open>
  The characters that \<^verbatim>\<open>str.strip()\<close> removes: those of \<^verbatim>\<open>str.isspace()\<close>, among them the
  next-line character U+0085 and the no-break space U+00A0.
\<close>

definition is_space :: "char \<Rightarrow> bool" where
  "is_space c = (c \<in> set [CHR '' '', CHR 0x09, CHR 0x0A, CHR 0x0B, CHR 0x0C, CHR 0x0D,
                            CHR 0x1C, CHR 0x1D, CHR 0x1E, CHR 0x1F, CHR 0x85, CHR 0xA0])"

definition py_strip :: "string \<Rightarrow> string" where
  "py_strip s = rev (dropWhile is_space (rev (dropWhile is_space s)))"

text \<open>
  \<^verbatim>\<open>c.isdigit()\<close> on a character: the ten decimal digits and the superscripts U+00B2, U+00B3
  and U+00B9. Only the decimal digits are digits for \<^verbatim>\<open>int\<close>.
\<close>

definition is_decimal_char :: "char \<Rightarrow> bool" where
  "is_decimal_char c = (c \<in> set ''0123456789'')"

definition isdigit_char :: "char \<Rightarrow> bool" where
  "isdigit_char c = (is_decimal_char c \<or> c \<in> set [CHR 0xB2, CHR 0xB3, CHR 0xB9])"

text \<open>\<^verbatim>\<open>s.isdigit()\<close>: every character is a digit and there is at least one.\<close>

definition str_isdigit :: "string \<Rightarrow> bool" where
  "str_isdigit s = (s \<noteq> [] \<and> list_all isdigit_char s)"

definition digit_val :: "char \<Rightarrow> nat" where
  "digit_val c = (case map_of (zip ''0123456789'' [0, 1, 2, 3, 4, 5, 6, 7, 8, 9]) c of
                    Some n \<Rightarrow> n | None \<Rightarrow> 0)"

text \<open>
  \<^verbatim>\<open>int(s)\<close> on a string of characters that \<^verbatim>\<open>isdigit\<close> accepts, \<open>None\<close> where it raises
  \<^verbatim>\<open>ValueError\<close>: on the empty string, on a character that is no decimal digit, and on more
  digits than the interpreter converts (\<^verbatim>\<open>sys.int_info.default_max_str_digits\<close>, leading
  zeros counted).
\<close>

definition int_max_str_digits :: nat where
  "int_max_str_digits = 4300"

definition py_int :: "string \<Rightarrow> nat option" where
  "py_int s =
     (if s \<noteq> [] \<and> list_all is_decimal_char s \<and> length s \<le> int_max_str_digits
      then Some (foldl (\<lambda>a c. 10 * a + digit_val c) 0 s) else None)"

subsection \<open>Rounding\<close>

text \<open>\<^verbatim>\<open>round(x, n)\<close> on exact values: to the nearest multiple of \<open>10\<^sup>-\<^sup>n\<close>, a tie to the even one.\<close>

definition round_half_even :: "rat \<Rightarrow> int" where
  "round_half_even x =
     (let f = \<lfloor>x\<rfloor>; d = x - of_int f in
      if d < 1 / 2 then f else if 1 / 2 < d then f + 1 else if even f then f else f + 1)"

definition py_round :: "rat \<Rightarrow> nat \<Rightarrow> rat" where
  "py_round x n = of_int (round_half_even (x * 10 ^ n)) / 10 ^ n"

subsection \<open>Floating point\<close>

text \<open>
  A double is a rational \<open>m * 2\<^sup>e\<close> with \<open>|m| < 2\<^sup>5\<^sup>3\<close> and \<open>e \<ge> -1074\<close>. \<open>ilog2 x\<close> is the
  exponent of the binade of \<open>x\<close>, and \<open>fl x\<close> the double nearest to \<open>x\<close>, a tie to the even
  one: what a float literal denotes and what every float operation returns on its exact
  result. Overflow to infinity is left out.
\<close>

definition ilog2 :: "rat \<Rightarrow> int" where
  "ilog2 x =
     (let a = \<bar>x\<bar>;
          k = bitlen (fst (quotient_of a)) - bitlen (snd (quotient_of a))
      in if 2 powi k \<le> a then k else k - 1)"

definition fl :: "rat \<Rightarrow> rat" where
  "fl x =
     (if x = 0 then 0
      else let q = 2 powi (max (ilog2 x - 52) (- 1074))
           in of_int (round_half_even (x / q)) * q)"

definition fadd :: "rat \<Rightarrow> rat \<Rightarrow> rat" where
  "fadd a b = fl (a + b)"

definition fmul :: "rat \<Rightarrow> rat \<Rightarrow> rat" where
  "fmul a b = fl (a * b)"

definition fdiv :: "rat \<Rightarrow> rat \<Rightarrow> rat" where
  "fdiv a b = fl (a / b)"

text \<open>
  \<^verbatim>\<open>round(x, n)\<close> on a float: the exact value rounded to \<open>n\<close> decimals, a tie to the even
  one, and of that the nearest double.
\<close>

definition float_round :: "rat \<Rightarrow> nat \<Rightarrow> rat" where
  "float_round x n = fl (py_round x n)"

section \<open>Education matching\<close>

text \<open>The four tests of \<^verbatim>\<open>normalize_degree\<close>, in the order of the source.\<close>

definition bachelor_terms :: "string list" where
  "bachelor_terms = [''b.tech'', ''btech'', ''b tech'', ''b.e'', ''be'', ''bachelor'']"

definition master_terms :: "string list" where
  "master_terms = [''m.tech'', ''mtech'', ''m tech'', ''m.e'', ''me'', ''master'', ''msc'', ''ms'']"

definition phd_terms :: "string list" where
  "phd_terms = [''phd'', ''ph.d'', ''doctor'', ''doctorate'', ''doctoral'']"

definition normalize_degree :: "pyval \<Rightarrow> pyerror + string" where
  "normalize_degree text =
     (if \<not> truthy text then Inr ''unknown''
      else case lower_of text of
        Inl e \<Rightarrow> Inl e
      | Inr t \<Rightarrow>
          if list_ex (\<lambda>x. sublist x t) bachelor_terms then Inr ''bachelor''
          else if list_ex (\<lambda>x. sublist x t) master_terms then Inr ''master''
          else if list_ex (\<lambda>x. sublist x t) phd_terms then Inr ''phd''
          else if sublist ''diploma'' t then Inr ''diploma''
          else Inr ''unknown'')"

definition RELEVANT_FIELDS :: "string list" where
  "RELEVANT_FIELDS =
     [''computer'', ''cs'', ''cse'', ''it'', ''information technology'',
      ''ai'', ''ml'', ''data'', ''data science'', ''ds'',
      ''ece'', ''eee'', ''electronics'', ''csbs'']"

text \<open>\<^verbatim>\<open>jd_field_req.strip()\<close> on an object: only a string has the method.\<close>

fun strip_of :: "pyval \<Rightarrow> pyerror + string" where
  "strip_of (PStr s) = Inr (py_strip s)"
| "strip_of _ = Inl AttributeError"

definition compute_field_relevance :: "pyval \<Rightarrow> pyval \<Rightarrow> pyerror + rat" where
  "compute_field_relevance candidate_stream jd_field_req =
     (if \<not> truthy jd_field_req then Inr 1.0
      else case strip_of jd_field_req of
        Inl e \<Rightarrow> Inl e
      | Inr stripped \<Rightarrow>
          if stripped = [] then Inr 1.0
          else
            (case lower_of (if truthy candidate_stream then candidate_stream else PStr []) of
               Inl e \<Rightarrow> Inl e
             | Inr cand \<Rightarrow>
                 if list_ex (\<lambda>trm. sublist trm cand) RELEVANT_FIELDS then Inr 0.9 else Inr 0.5))"

definition level_score :: "string \<Rightarrow> string \<Rightarrow> rat" where
  "level_score cand_level jd_level =
     (if cand_level = jd_level then 1.0
      else if cand_level = ''master'' \<and> jd_level = ''bachelor'' then 1.0
      else if cand_level = ''bachelor'' \<and> jd_level = ''master'' then 0.6
      else if cand_level = ''diploma'' \<and> jd_level = ''bachelor'' then 0.5
      else 0.4)"

definition degree_match :: "pyval \<Rightarrow> pyval \<Rightarrow> pyval \<Rightarrow> pyerror + rat" where
  "degree_match candidate_degree candidate_stream jd_required =
     (if \<not> truthy jd_required then Inr 1.0
      else case normalize_degree candidate_degree of
        Inl e \<Rightarrow> Inl e
      | Inr cand_level \<Rightarrow>
          (case normalize_degree jd_required of
             Inl e \<Rightarrow> Inl e
           | Inr jd_level \<Rightarrow>
               (case compute_field_relevance candidate_stream jd_required of
                  Inl e \<Rightarrow> Inl e
                | Inr field_score \<Rightarrow>
                    Inr (py_round (0.7 * level_score cand_level jd_level + 0.3 * field_score) 3))))"

section \<open>Experience matching\<close>

text \<open>
  The argument of \<^verbatim>\<open>int\<close> in \<^verbatim>\<open>experience_match\<close>:
  \<^verbatim>\<open>"".join([c for c in jd_exp if c.isdigit()])\<close>, or \<open>None\<close> where building it raises.
  A string yields its digit characters; a list must hold strings only and yields those that
  are all digits; a dictionary yields such keys; nothing else can be iterated.
\<close>

fun un_PStr :: "pyval \<Rightarrow> string option" where
  "un_PStr (PStr s) = Some s"
| "un_PStr _ = None"

fun digits_joined :: "pyval \<Rightarrow> string option" where
  "digits_joined (PStr s) = Some (filter isdigit_char s)"
| "digits_joined (PList l) =
     (if list_all (\<lambda>c. un_PStr c \<noteq> None) l
      then Some (concat (filter str_isdigit (map (\<lambda>c. the (un_PStr c)) l))) else None)"
| "digits_joined (PDict d) = Some (concat (filter str_isdigit (map fst d)))"
| "digits_joined _ = None"

text \<open>The \<^verbatim>\<open>try\<close> block: the value of \<^verbatim>\<open>required\<close>, or \<open>None\<close> where anything in it raises.\<close>

definition required_years :: "pyval \<Rightarrow> nat option" where
  "required_years jd_exp = (case digits_joined jd_exp of None \<Rightarrow> None | Some s \<Rightarrow> py_int s)"

definition experience_match :: "rat \<Rightarrow> pyval \<Rightarrow> rat" where
  "experience_match candidate_exp_years jd_exp =
     (if \<not> truthy jd_exp then 1.0
      else case required_years jd_exp of
        None \<Rightarrow> 1.0
      | Some required \<Rightarrow>
          if candidate_exp_years \<ge> of_nat required then 1.0
          else if candidate_exp_years \<ge> of_nat required - 1 then 0.6
          else 0.2)"

section \<open>Experience aggregation\<close>

record months =
  internship_months :: rat
  apprentice_months :: rat
  industry_months :: rat
  part_time_months :: rat
  freelance_months :: rat

record exp_breakdown =
  internship_years :: rat
  apprentice_years :: rat
  industry_years :: rat
  part_time_years :: rat
  freelance_years :: rat
  effective_years :: rat

text \<open>The choice of \<^verbatim>\<open>experiences\<close>: from a dictionary, or from the first element of a list.\<close>

definition experiences_of :: "pyval \<Rightarrow> pyerror + pyval" where
  "experiences_of candidate =
     (case candidate of
        PDict d \<Rightarrow> py_get candidate ''experience'' (PList [])
      | PList l \<Rightarrow>
          (case l of
             [] \<Rightarrow> Inr (PList [])
           | c0 # _ \<Rightarrow>
               (case c0 of PDict d0 \<Rightarrow> py_get c0 ''experience'' (PList []) | _ \<Rightarrow> Inr (PList [])))
      | _ \<Rightarrow> Inr (PList []))"

text \<open>One turn of the loop over \<^verbatim>\<open>experiences\<close>.\<close>

definition add_experience :: "months \<Rightarrow> pyval \<Rightarrow> pyerror + months" where
  "add_experience acc exp_item =
     (case py_get exp_item ''duration_months'' (PNum 0) of
        Inl e \<Rightarrow> Inl e
      | Inr mv \<Rightarrow>
          (case py_get exp_item ''type'' (PStr []) of
             Inl e \<Rightarrow> Inl e
           | Inr ty \<Rightarrow>
               (case lower_of (if truthy ty then ty else PStr []) of
                  Inl e \<Rightarrow> Inl e
                | Inr exp_type \<Rightarrow>
                    (case num_of mv of
                       None \<Rightarrow> Inl TypeError
                     | Some m \<Rightarrow>
                         Inr (if exp_type = ''internship''
                                then acc\<lparr>internship_months := fadd (internship_months acc) m\<rparr>
                              else if exp_type = ''apprentice''
                                then acc\<lparr>apprentice_months := fadd (apprentice_months acc) m\<rparr>
                              else if exp_type = ''full time''
                                then acc\<lparr>industry_months := fadd (industry_months acc) m\<rparr>
                              else if exp_type = ''part time''
                                then acc\<lparr>part_time_months := fadd (part_time_months acc) m\<rparr>
                              else if exp_type = ''free lance''
                                then acc\<lparr>freelance_months := fadd (freelance_months acc) m\<rparr>
                              else acc\<lparr>apprentice_months :=
                                     fadd (apprentice_months acc) (fmul (fl 0.5) m)\<rparr>)))))"

fun experience_loop :: "months \<Rightarrow> pyval list \<Rightarrow> pyerror + months" where
  "experience_loop acc [] = Inr acc"
| "experience_loop acc (exp_item # rest) =
     (case add_experience acc exp_item of Inl e \<Rightarrow> Inl e | Inr acc' \<Rightarrow> experience_loop acc' rest)"

definition compute_experience_breakdown :: "pyval \<Rightarrow> pyerror + exp_breakdown" where
  "compute_experience_breakdown candidate =
     (case experiences_of candidate of
        Inl e \<Rightarrow> Inl e
      | Inr experiences \<Rightarrow>
          (case py_iter experiences of
             Inl e \<Rightarrow> Inl e
           | Inr exps \<Rightarrow>
               (case experience_loop
                       \<lparr>internship_months = 0, apprentice_months = 0, industry_months = 0,
                        part_time_months = 0, freelance_months = 0\<rparr> exps of
                  Inl e \<Rightarrow> Inl e
                | Inr m \<Rightarrow>
                    (let internship_years = fdiv (internship_months m) 12;
                         apprentice_years = fdiv (apprentice_months m) 12;
                         industry_years = fdiv (industry_months m) 12;
                         part_time_years = fdiv (part_time_months m) 12;
                         freelance_years = fdiv (freelance_months m) 12;
                         INTERNSHIP_WEIGHT = fl 0.5;
                         APPRENTICE_WEIGHT = fl 0.6;
                         PART_TIME_WEIGHT = fl 0.4;
                         FREELANCE_WEIGHT = fl 0.7;
                         effective_years =
                           fadd (fadd (fadd (fadd
                             industry_years
                             (fmul INTERNSHIP_WEIGHT internship_years))
                             (fmul APPRENTICE_WEIGHT apprentice_years))
                             (fmul PART_TIME_WEIGHT part_time_years))
                             (fmul FREELANCE_WEIGHT freelance_years)
                     in Inr \<lparr>internship_years = float_round internship_years 2,
                             apprentice_years = float_round apprentice_years 2,
                             industry_years = float_round industry_years 2,
                             part_time_years = float_round part_time_years 2,
                             freelance_years = float_round freelance_years 2,
                             effective_years = float_round effective_years 2\<rparr>))))"

section \<open>The extraction stages\<close>

text \<open>
  What \<^verbatim>\<open>extract_data\<close> of \<^verbatim>\<open>text_extractor.py\<close> returns as \<^verbatim>\<open>links\<close>.
\<close>

record profile_info =
  linkedin :: string
  mail :: string
  medium :: string
  contact :: "string list"
  location :: string

record links_info =
  profile_info :: profile_info
  projects :: "string list"

text \<open>
  \<^verbatim>\<open>json.loads\<close> is a parameter \<open>loads\<close> of the stages: \<open>None\<close> where it raises. The
  answers of the language model are parameters too: the message text of each extraction
  stage, and for the grading stage a function \<open>grader\<close> from the payload to the message text.
\<close>

definition error_record :: "string \<Rightarrow> pyval" where
  "error_record assistant_msg =
     PDict [(''error'', PStr ''Invalid JSON returned''), (''raw_output'', PStr assistant_msg)]"

definition parse_or_error :: "(string \<Rightarrow> pyval option) \<Rightarrow> string \<Rightarrow> pyval" where
  "parse_or_error loads assistant_msg =
     (case loads assistant_msg of Some parsed \<Rightarrow> parsed | None \<Rightarrow> error_record assistant_msg)"

text \<open>\<^verbatim>\<open>d[k] = v\<close> on a dictionary: a key already there keeps its place.\<close>

fun dict_set :: "string \<Rightarrow> pyval \<Rightarrow> (string \<times> pyval) list \<Rightarrow> (string \<times> pyval) list" where
  "dict_set k v [] = [(k, v)]"
| "dict_set k v (p # ps) = (if fst p = k then (k, v) # ps else p # dict_set k v ps)"

definition stitch_contact :: "links_info \<Rightarrow> (string \<times> pyval) list \<Rightarrow> (string \<times> pyval) list" where
  "stitch_contact links c =
     (let profile = profile_info links;
          projs = projects links;
          c1 = dict_set ''email'' (PStr (mail profile)) c;
          c2 = dict_set ''phone'' (PList (map PStr (contact profile))) c1;
          c3 = dict_set ''linkedin'' (PStr (linkedin profile)) c2;
          c4 = dict_set ''github'' (PStr (if length projs > 0 then projs ! 0 else [])) c3;
          c5 = dict_set ''portfolio'' (PStr (if length projs > 1 then projs ! 1 else [])) c4
      in dict_set ''other_links'' (PList (map PStr projs)) c5)"

definition candidate_info_extraction ::
    "(string \<Rightarrow> pyval option) \<Rightarrow> links_info \<Rightarrow> string \<Rightarrow> pyerror + pyval" where
  "candidate_info_extraction loads links assistant_msg =
     (let parsed = parse_or_error loads assistant_msg in
      case parsed of
        PDict d \<Rightarrow>
          (case map_of d ''contact'' of
             None \<Rightarrow> Inr parsed
           | Some c \<Rightarrow>
               (case c of
                  PDict cd \<Rightarrow> Inr (PDict (dict_set ''contact'' (PDict (stitch_contact links cd)) d))
                | _ \<Rightarrow> Inl TypeError))
      | _ \<Rightarrow> Inr parsed)"

definition job_desc_extraction :: "(string \<Rightarrow> pyval option) \<Rightarrow> string \<Rightarrow> pyval" where
  "job_desc_extraction loads assistant_msg = parse_or_error loads assistant_msg"

section \<open>The matching stage\<close>

record score_bundle =
  experience_score :: rat
  education_score :: rat
  skill_match_score :: pyval
  final_match_score :: rat

text \<open>\<^verbatim>\<open>x[0]\<close> on an object.\<close>

fun py_index0 :: "pyval \<Rightarrow> pyerror + pyval" where
  "py_index0 (PList []) = Inl IndexError"
| "py_index0 (PList (x # xs)) = Inr x"
| "py_index0 (PStr []) = Inl IndexError"
| "py_index0 (PStr (c # cs)) = Inr (PStr [c])"
| "py_index0 (PDict d) = Inl KeyError"
| "py_index0 _ = Inl TypeError"

text \<open>\<^verbatim>\<open>a + b\<close> on two objects.\<close>

fun py_add :: "pyval \<Rightarrow> pyval \<Rightarrow> pyerror + pyval" where
  "py_add (PList a) (PList b) = Inr (PList (a @ b))"
| "py_add (PStr a) (PStr b) = Inr (PStr (a @ b))"
| "py_add a b =
     (case (num_of a, num_of b) of
        (Some x, Some y) \<Rightarrow> Inr (PNum (x + y))
      | _ \<Rightarrow> Inl TypeError)"

text \<open>The degree and the stream of the first education entry, or two empty strings.\<close>

definition education_of :: "pyval \<Rightarrow> pyerror + pyval \<times> pyval" where
  "education_of candidate =
     (case py_get candidate ''education'' PNone of
        Inl e \<Rightarrow> Inl e
      | Inr education \<Rightarrow>
          if truthy education then
            (case py_index0 education of
               Inl e \<Rightarrow> Inl e
             | Inr first \<Rightarrow>
                 (case py_get first ''degree'' (PStr []) of
                    Inl e \<Rightarrow> Inl e
                  | Inr degree \<Rightarrow>
                      (case py_get first ''stream'' (PStr []) of
                         Inl e \<Rightarrow> Inl e
                       | Inr stream \<Rightarrow> Inr (degree, stream))))
          else Inr (PStr [], PStr []))"

text \<open>
  The \<^verbatim>\<open>payload\<close> handed to the grader. Here \<open>cand\<close> and \<open>jd_obj\<close> are dictionaries
  already (the lookups before this point have raised otherwise).
\<close>

definition dict_get :: "(string \<times> pyval) list \<Rightarrow> string \<Rightarrow> pyval \<Rightarrow> pyval" where
  "dict_get d k dflt = (case map_of d k of Some v \<Rightarrow> v | None \<Rightarrow> dflt)"

definition build_payload ::
    "(string \<times> pyval) list \<Rightarrow> (string \<times> pyval) list \<Rightarrow> pyerror + pyval" where
  "build_payload cand jd_obj =
     (let skills_obj = dict_get cand ''skills'' (PDict []) in
      case py_get skills_obj ''technical'' (PList []) of
        Inl e \<Rightarrow> Inl e
      | Inr technical0 \<Rightarrow>
          (let technical = (if truthy technical0 then technical0 else PList []) in
           case py_get skills_obj ''tools'' (PList []) of
             Inl e \<Rightarrow> Inl e
           | Inr tools0 \<Rightarrow>
               (let tools = (if truthy tools0 then tools0 else PList []) in
                case py_add technical tools of
                  Inl e \<Rightarrow> Inl e
                | Inr candidate_skills \<Rightarrow>
                    Inr (PDict
                      [(''jd_required_skills'', dict_get jd_obj ''skills_required'' (PList [])),
                       (''jd_optional_skills'', dict_get jd_obj ''skills_optional'' (PList [])),
                       (''jd_tools'', dict_get jd_obj ''tools_and_technologies'' (PList [])),
                       (''jd_responsibilities'', dict_get jd_obj ''responsibilities'' (PList [])),
                       (''candidate_skills'', candidate_skills),
                       (''candidate_tools'', tools),
                       (''candidate_projects'', dict_get cand ''projects'' (PList [])),
                       (''candidate_experience'', dict_get cand ''experience'' (PList [])),
                       (''candidate_certifications'',
                          dict_get cand ''certifications'' (PList []))]))))"

text \<open>
  Lines 303 to 306: a list is replaced by its first element, an empty list by an empty
  dictionary; then \<^verbatim>\<open>final_skill_match_score\<close> is read with \<^verbatim>\<open>.get\<close>, default 0.
  The result is the pair of \<^verbatim>\<open>skill_match\<close> and \<^verbatim>\<open>skill_score\<close>.
\<close>

definition unwrap_skill_match :: "pyval \<Rightarrow> pyval" where
  "unwrap_skill_match skill_match =
     (case skill_match of
        PList l \<Rightarrow> (case l of [] \<Rightarrow> PDict [] | x # xs \<Rightarrow> x)
      | _ \<Rightarrow> skill_match)"

definition extract_skill_score :: "pyval \<Rightarrow> pyerror + pyval \<times> pyval" where
  "extract_skill_score result =
     (let skill_match = unwrap_skill_match result in
      case py_get skill_match ''final_skill_match_score'' (PNum 0) of
        Inl e \<Rightarrow> Inl e
      | Inr skill_score \<Rightarrow> Inr (skill_match, skill_score))"

text \<open>Lines 309 to 313, on numbers.\<close>

definition final_score :: "rat \<Rightarrow> rat \<Rightarrow> rat \<Rightarrow> rat" where
  "final_score exp_score edu_score skill_score =
     0.20 * exp_score + 0.10 * edu_score + 0.70 * skill_score"

definition candidate_job_matching ::
    "(string \<Rightarrow> pyval option) \<Rightarrow> (pyval \<Rightarrow> string) \<Rightarrow> pyval \<Rightarrow> pyval \<Rightarrow> pyerror + score_bundle" where
  "candidate_job_matching loads grader candidate jd =
     (case compute_experience_breakdown candidate of
        Inl e \<Rightarrow> Inl e
      | Inr exp_data \<Rightarrow>
     (case py_get jd ''experience_required'' (PStr []) of
        Inl e \<Rightarrow> Inl e
      | Inr jd_exp \<Rightarrow>
     (let exp_score = experience_match (effective_years exp_data) jd_exp in
      case education_of candidate of
        Inl e \<Rightarrow> Inl e
      | Inr (degree, stream) \<Rightarrow>
     (case py_get jd ''education_required'' (PStr []) of
        Inl e \<Rightarrow> Inl e
      | Inr jd_edu \<Rightarrow>
     (case degree_match degree stream jd_edu of
        Inl e \<Rightarrow> Inl e
      | Inr edu_score \<Rightarrow>
     (case (case (candidate, jd) of
              (PDict cand, PDict jd_obj) \<Rightarrow> build_payload cand jd_obj
            | _ \<Rightarrow> Inl AttributeError) of
        Inl e \<Rightarrow> Inl e
      | Inr payload \<Rightarrow>
     (case loads (grader payload) of
        None \<Rightarrow> Inl JSONDecodeError
      | Some result \<Rightarrow>
     (case extract_skill_score result of
        Inl e \<Rightarrow> Inl e
      | Inr (skill_match, skill_score) \<Rightarrow>
     (case num_of skill_score of
        None \<Rightarrow> Inl TypeError
      | Some s \<Rightarrow>
          Inr \<lparr>experience_score = exp_score,
               education_score = edu_score,
               skill_match_score = skill_match,
               final_match_score = final_score exp_score edu_score s\<rparr>)))))))))"

text \<open>
  The compiled graph: \<^verbatim>\<open>candidate_json\<close>, then \<^verbatim>\<open>jd_json\<close>, then \<^verbatim>\<open>match_score\<close>.
  An exception of a stage ends the run.
\<close>

definition app_invoke ::
    "(string \<Rightarrow> pyval option) \<Rightarrow> (pyval \<Rightarrow> string) \<Rightarrow> links_info \<Rightarrow> string \<Rightarrow> string
       \<Rightarrow> pyerror + score_bundle" where
  "app_invoke loads grader links candidate_msg jd_msg =
     (case candidate_info_extraction loads links candidate_msg of
        Inl e \<Rightarrow> Inl e
      | Inr candidate_info_json \<Rightarrow>
          candidate_job_matching loads grader candidate_info_json
            (job_desc_extraction loads jd_msg))"

section \<open>Notions of the specification\<close>

text \<open>
  The first run of digit characters of a string, and what follows that run.
\<close>

definition first_digit_run :: "string \<Rightarrow> string" where
  "first_digit_run s = takeWhile isdigit_char (dropWhile (\<lambda>c. \<not> isdigit_char c) s)"

definition after_first_run :: "string \<Rightarrow> string" where
  "after_first_run s = dropWhile isdigit_char (dropWhile (\<lambda>c. \<not> isdigit_char c) s)"

text \<open>The number a string of decimal digits denotes, by place value.\<close>

definition decimal_value :: "string \<Rightarrow> nat" where
  "decimal_value ds =
     sum_list (map (\<lambda>i. digit_val (ds ! i) * 10 ^ (length ds - Suc i)) [0..<length ds])"

text \<open>
  An experience record of the specification, with its two fields, and the dictionary that
  stands for it in a candidate profile.
\<close>

record experience_record =
  exp_type :: string
  duration_months :: rat

definition record_py :: "experience_record \<Rightarrow> pyval" where
  "record_py r =
     PDict [(''type'', PStr (exp_type r)), (''duration_months'', PNum (duration_months r))]"

definition recognized :: "string list" where
  "recognized = [''internship'', ''apprentice'', ''full time'', ''part time'', ''free lance'']"

text \<open>A sum in floating point, the summands added from left to right.\<close>

definition float_sum :: "rat list \<Rightarrow> rat" where
  "float_sum xs = foldl fadd 0 xs"

text \<open>
  What the records add to the bucket of one category, the type compared without regard to
  case; and what they add to the apprentice bucket: the months of an apprentice record and
  half the months of a record whose type is no recognized category.
\<close>

definition category_months :: "string \<Rightarrow> experience_record list \<Rightarrow> rat list" where
  "category_months cat recs =
     map duration_months (filter (\<lambda>r. py_lower (exp_type r) = cat) recs)"

definition apprentice_share :: "experience_record \<Rightarrow> rat" where
  "apprentice_share r =
     (if py_lower (exp_type r) = ''apprentice'' then duration_months r
      else fmul (fl 0.5) (duration_months r))"

definition apprentice_months_of :: "experience_record list \<Rightarrow> rat list" where
  "apprentice_months_of recs =
     map apprentice_share
       (filter (\<lambda>r. py_lower (exp_type r) = ''apprentice''
                    \<or> py_lower (exp_type r) \<notin> set recognized) recs)"

text \<open>
  The numbers the aggregator computes on as the code does: every length of time is a double,
  and the lengths add up to at most \<open>2\<^sup>5\<^sup>3\<close> in absolute value.
\<close>

definition months_in_range :: "experience_record list \<Rightarrow> bool" where
  "months_in_range recs =
     (list_all (\<lambda>r. fl (duration_months r) = duration_months r) recs
      \<and> sum_list (map (\<lambda>r. \<bar>duration_months r\<bar>) recs) \<le> 2 ^ 53)"

section \<open>Properties of experience matching\<close>

lemma filter_dropWhile_not: "filter P (dropWhile (\<lambda>c. \<not> P c) s) = filter P s"
  by (induction s) auto

lemma filter_takeWhile_same: "filter P (takeWhile P s) = takeWhile P s"
  by (induction s) auto

lemma filter_split_run:
  "filter P s =
     takeWhile P (dropWhile (\<lambda>c. \<not> P c) s) @
     filter P (dropWhile P (dropWhile (\<lambda>c. \<not> P c) s))"
proof -
  let ?r = "dropWhile (\<lambda>c. \<not> P c) s"
  have "filter P s = filter P ?r" by (simp add: filter_dropWhile_not)
  also have "\<dots> = filter P (takeWhile P ?r @ dropWhile P ?r)" by simp
  also have "\<dots> = takeWhile P ?r @ filter P (dropWhile P ?r)"
    by (simp only: filter_append filter_takeWhile_same)
  finally show ?thesis .
qed

lemma decimal_value_snoc: "decimal_value (xs @ [x]) = 10 * decimal_value xs + digit_val x"
proof -
  have m: "map (\<lambda>i. digit_val ((xs @ [x]) ! i) * 10 ^ (length xs - i)) [0..<length xs]
      = map (\<lambda>i. 10 * (digit_val (xs ! i) * 10 ^ (length xs - Suc i))) [0..<length xs]"
  proof (rule map_cong [OF refl])
    fix i assume "i \<in> set [0..<length xs]"
    then have i: "i < length xs" by simp
    then have "length xs - i = Suc (length xs - Suc i)" by simp
    with i show "digit_val ((xs @ [x]) ! i) * 10 ^ (length xs - i)
        = 10 * (digit_val (xs ! i) * 10 ^ (length xs - Suc i))"
      by (simp add: nth_append)
  qed
  have "decimal_value (xs @ [x])
      = sum_list (map (\<lambda>i. digit_val ((xs @ [x]) ! i) * 10 ^ (length xs - i)) [0..<length xs])
        + digit_val x"
    by (simp add: decimal_value_def)
  also have "\<dots> = sum_list (map (\<lambda>i. 10 * (digit_val (xs ! i) * 10 ^ (length xs - Suc i)))
        [0..<length xs]) + digit_val x"
    by (simp only: m)
  also have "\<dots> = 10 * decimal_value xs + digit_val x"
    by (simp only: decimal_value_def sum_list_const_mult)
  finally show ?thesis .
qed

text \<open>The left-to-right evaluation of \<^verbatim>\<open>int\<close> computes the place value.\<close>

lemma horner_decimal: "foldl (\<lambda>a c. 10 * a + digit_val c) 0 ds = decimal_value ds"
proof (induction ds rule: rev_induct)
  case Nil
  show ?case by (simp add: decimal_value_def)
next
  case (snoc x xs)
  then show ?case by (simp add: decimal_value_snoc)
qed

lemma filter_single_run:
  assumes "list_all (\<lambda>c. \<not> P c) pre" "list_all P ds" "list_all (\<lambda>c. \<not> P c) post"
  shows "filter P (pre @ ds @ post) = ds"
  using assms by (simp add: list_all_iff)

lemma decimal_is_digit: "list_all is_decimal_char ds \<Longrightarrow> list_all isdigit_char ds"
  by (simp add: list_all_iff isdigit_char_def)

text \<open>On a string, the score is decided by all the digit characters, joined.\<close>

lemma experience_match_str:
  "experience_match y (PStr s) =
     (if filter isdigit_char s \<noteq> [] \<and> list_all is_decimal_char (filter isdigit_char s)
         \<and> length (filter isdigit_char s) \<le> int_max_str_digits
      then (if y \<ge> of_nat (decimal_value (filter isdigit_char s)) then 1.0
            else if y \<ge> of_nat (decimal_value (filter isdigit_char s)) - 1 then 0.6 else 0.2)
      else 1.0)"
proof (cases "s = []")
  case True
  then show ?thesis by (simp add: experience_match_def)
next
  case False
  then show ?thesis
    by (simp add: experience_match_def required_years_def py_int_def horner_decimal)
qed

lemma filter_replicate_same: "P c \<Longrightarrow> filter P (replicate n c) = replicate n c"
  by (induction n) auto

text \<open>
  Claim C4, as stated, fails: the required year count is not read from the first run of
  digits. For \<^verbatim>\<open>"2-4 years"\<close> the first run is \<^verbatim>\<open>"2"\<close>, the code requires 24 years, and
  a candidate with 10 years scores 0.2 instead of 1.0.
\<close>

theorem experience_match_first_run_counterexample:
  "py_int (first_digit_run ''2-4 years'') = Some 2
   \<and> required_years (PStr ''2-4 years'') = Some 24
   \<and> experience_match 10 (PStr ''2-4 years'') = 0.2"
  by code_simp

text \<open>
  Claim C4, amended: for every requirement string the required year count is parsed from
  all the characters of the string that \<^verbatim>\<open>isdigit\<close> accepts, joined in order, that is the
  first run of digits followed by every later digit, and the score is 1.0, 0.6 or 0.2 by
  that count; the score is 1.0 when the string is empty or has no digit, and when the joined
  digits do not parse (a superscript digit among them, or more than 4300 digits); for
  \<^verbatim>\<open>"2-4 years"\<close> the required count is 24, so 10 years score 0.2.
\<close>

theorem experience_match_all_digits:
  "experience_match y (PStr s) =
     (let ds = first_digit_run s @ filter isdigit_char (after_first_run s) in
      if ds \<noteq> [] \<and> list_all is_decimal_char ds \<and> length ds \<le> int_max_str_digits
      then (if y \<ge> of_nat (decimal_value ds) then 1.0
            else if y \<ge> of_nat (decimal_value ds) - 1 then 0.6 else 0.2)
      else 1.0)
   \<and> (filter isdigit_char s = [] \<longrightarrow> experience_match y (PStr s) = 1.0)
   \<and> required_years (PStr ''2-4 years'') = Some 24
   \<and> experience_match 10 (PStr ''2-4 years'') = 0.2"
proof -
  have d: "first_digit_run s @ filter isdigit_char (after_first_run s) = filter isdigit_char s"
    unfolding first_digit_run_def after_first_run_def
    using filter_split_run [of isdigit_char s] by simp
  have a: "experience_match y (PStr s) =
     (let ds = first_digit_run s @ filter isdigit_char (after_first_run s) in
      if ds \<noteq> [] \<and> list_all is_decimal_char ds \<and> length ds \<le> int_max_str_digits
      then (if y \<ge> of_nat (decimal_value ds) then 1.0
            else if y \<ge> of_nat (decimal_value ds) - 1 then 0.6 else 0.2)
      else 1.0)"
    unfolding d Let_def by (rule experience_match_str)
  have b: "filter isdigit_char s = [] \<longrightarrow> experience_match y (PStr s) = 1.0"
    by (simp add: experience_match_str)
  have c: "required_years (PStr ''2-4 years'') = Some 24" by code_simp
  have e: "experience_match 10 (PStr ''2-4 years'') = 0.2" by code_simp
  from a b c e show ?thesis by blast
qed

theorem experience_match_all_digits_witness:
  "filter isdigit_char ''no digits here'' = []
   \<and> experience_match 7 (PStr ''no digits here'') = 1.0
   \<and> first_digit_run ''2-4 years'' @ filter isdigit_char (after_first_run ''2-4 years'') = ''24''
   \<and> experience_match 23 (PStr ''2-4 years'') = 0.6"
proof -
  have n: "filter isdigit_char ''no digits here'' = []" by code_simp
  have d: "first_digit_run ''2-4 years'' @ filter isdigit_char (after_first_run ''2-4 years'')
      = ''24''"
    by code_simp
  have v: "decimal_value ''24'' = 24" by code_simp
  have l: "list_all is_decimal_char ''24'' \<and> length ''24'' \<le> int_max_str_digits"
    by code_simp
  from experience_match_all_digits [of 7 "''no digits here''"] n
  have a: "experience_match 7 (PStr ''no digits here'') = 1.0" by blast
  from experience_match_all_digits [of 23 "''2-4 years''"]
  have "experience_match 23 (PStr ''2-4 years'') =
     (let ds = first_digit_run ''2-4 years'' @ filter isdigit_char (after_first_run ''2-4 years'') in
      if ds \<noteq> [] \<and> list_all is_decimal_char ds \<and> length ds \<le> int_max_str_digits
      then (if (23::rat) \<ge> of_nat (decimal_value ds) then 1.0
            else if (23::rat) \<ge> of_nat (decimal_value ds) - 1 then 0.6 else 0.2)
      else 1.0)"
    by (elim conjE)
  then have b: "experience_match 23 (PStr ''2-4 years'') = 0.6"
    unfolding d Let_def using v l by simp
  from n a d b show ?thesis by blast
qed

text \<open>
  Claim C5, as stated, fails: a run of 4301 nines is a single run of digits denoting a
  number \<open>R\<close> with \<open>0 < R - 1\<close>, so the claim gives 0.2 for 0 effective years; the conversion
  of more than 4300 digits raises, and the code returns 1.0.
\<close>

theorem experience_match_digit_limit_counterexample:
  "list_all is_decimal_char (replicate 4301 (CHR ''9''))
   \<and> \<not> (0::rat) \<ge> of_nat (decimal_value (replicate 4301 (CHR ''9''))) - 1
   \<and> experience_match 0 (PStr (replicate 4301 (CHR ''9''))) = 1.0"
proof -
  have n: "(4301::nat) = Suc 4300" by simp
  have r: "replicate 4301 (CHR ''9'') = replicate 4300 (CHR ''9'') @ [CHR ''9'']"
    unfolding n by (simp only: replicate_Suc replicate_append_same)
  have a: "list_all is_decimal_char (replicate 4301 (CHR ''9''))"
    by (simp add: list_all_iff is_decimal_char_def)
  have "decimal_value (replicate 4301 (CHR ''9'')) \<ge> 9"
    unfolding r decimal_value_snoc by (simp add: digit_val_def)
  then have "(9::rat) \<le> of_nat (decimal_value (replicate 4301 (CHR ''9'')))"
    by (metis of_nat_le_iff of_nat_numeral)
  then have b: "\<not> (0::rat) \<ge> of_nat (decimal_value (replicate 4301 (CHR ''9''))) - 1"
    by simp
  have f: "filter isdigit_char (replicate 4301 (CHR ''9'')) = replicate 4301 (CHR ''9'')"
    by (rule filter_replicate_same) (simp add: isdigit_char_def is_decimal_char_def)
  have c: "experience_match 0 (PStr (replicate 4301 (CHR ''9''))) = 1.0"
    unfolding experience_match_str f by (simp add: int_max_str_digits_def)
  from a b c show ?thesis by blast
qed

text \<open>
  Claim C5, amended: for a requirement string with a single run of decimal digits denoting
  the number \<open>R\<close> (before the run and after it no character that \<^verbatim>\<open>isdigit\<close> accepts) and at
  most 4300 digits in the run, \<^verbatim>\<open>experience_match\<close> returns 1.0 when the effective years
  reach \<open>R\<close>, 0.6 when they reach \<open>R - 1\<close> but not \<open>R\<close>, and 0.2 below \<open>R - 1\<close>; with a longer
  run it returns 1.0; the three examples of the specification hold.
\<close>

theorem experience_match_single_run:
  "list_all (\<lambda>c. \<not> isdigit_char c) pre \<Longrightarrow> list_all is_decimal_char ds \<Longrightarrow> ds \<noteq> [] \<Longrightarrow>
   list_all (\<lambda>c. \<not> isdigit_char c) post \<Longrightarrow>
   experience_match y (PStr (pre @ ds @ post)) =
     (if length ds \<le> int_max_str_digits
      then (if y \<ge> of_nat (decimal_value ds) then 1.0
            else if y \<ge> of_nat (decimal_value ds) - 1 then 0.6 else 0.2)
      else 1.0)
   \<and> experience_match 5 (PStr ''3+ years required'') = 1.0
   \<and> experience_match 2 (PStr ''3+ years'') = 0.6
   \<and> experience_match 0.5 (PStr ''3+ years'') = 0.2"
proof -
  assume a: "list_all (\<lambda>c. \<not> isdigit_char c) pre" "list_all is_decimal_char ds" "ds \<noteq> []"
    "list_all (\<lambda>c. \<not> isdigit_char c) post"
  have f: "filter isdigit_char (pre @ ds @ post) = ds"
    using a(1) decimal_is_digit [OF a(2)] a(4) by (rule filter_single_run)
  have g: "experience_match y (PStr (pre @ ds @ post)) =
     (if length ds \<le> int_max_str_digits
      then (if y \<ge> of_nat (decimal_value ds) then 1.0
            else if y \<ge> of_nat (decimal_value ds) - 1 then 0.6 else 0.2)
      else 1.0)"
    unfolding experience_match_str f using a(2,3) by simp
  have e1: "experience_match 5 (PStr ''3+ years required'') = 1.0" by code_simp
  have e2: "experience_match 2 (PStr ''3+ years'') = 0.6" by code_simp
  have e3: "experience_match 0.5 (PStr ''3+ years'') = 0.2" by code_simp
  from g e1 e2 e3 show ?thesis by blast
qed

theorem experience_match_single_run_witness:
  "decimal_value ''12'' = 12
   \<and> experience_match (23 / 2) (PStr (''at least '' @ ''12'' @ '' years'')) = 0.6"
  using experience_match_single_run [of "''at least ''" "''12''" "'' years''" "23 / 2"]
  by (simp add: isdigit_char_def is_decimal_char_def decimal_value_def digit_val_def
      int_max_str_digits_def)

text \<open>
  Claim C6: an empty requirement string for experience gives \<^verbatim>\<open>experience_match\<close> = 1.0 and
  an empty requirement string for education gives \<^verbatim>\<open>degree_match\<close> = 1.0, whatever the
  other arguments are.
\<close>

theorem empty_requirement_scores_one:
  "experience_match y (PStr []) = 1.0 \<and> degree_match d s (PStr []) = Inr 1.0"
  by (simp add: experience_match_def degree_match_def)

section \<open>Properties of education matching\<close>

lemma normalize_degree_str: "\<exists>l. normalize_degree (PStr d) = Inr l"
  by (simp add: normalize_degree_def)

lemma level_score_cases:
  "level_score a b = 1.0 \<or> level_score a b = 0.6 \<or> level_score a b = 0.5
   \<or> level_score a b = 0.4"
  by (simp add: level_score_def)

text \<open>On strings \<^verbatim>\<open>compute_field_relevance\<close> never raises and has three values.\<close>

lemma field_relevance_str:
  "compute_field_relevance (PStr s) (PStr j) =
     Inr (if py_strip j = [] then 1.0
          else if list_ex (\<lambda>trm. sublist trm (py_lower s)) RELEVANT_FIELDS then 0.9 else 0.5)"
proof (cases "j = []")
  case True
  then show ?thesis by (simp add: compute_field_relevance_def py_strip_def)
next
  case False
  then show ?thesis by (cases "s = []") (simp_all add: compute_field_relevance_def)
qed

lemma field_relevance_cases:
  "\<exists>f. compute_field_relevance (PStr s) (PStr j) = Inr f
     \<and> (f = 1.0 \<and> py_strip j = [] \<or> f = 0.9 \<or> f = 0.5)"
  unfolding field_relevance_str by (cases "py_strip j = []") auto

text \<open>Every score the formula can take has at most three decimals: rounding keeps it.\<close>

lemma py_round_scores:
  assumes "l = 1.0 \<or> l = 0.6 \<or> l = 0.5 \<or> l = (0.4::rat)"
    and "f = 1.0 \<or> f = 0.9 \<or> f = (0.5::rat)"
  shows "py_round (0.7 * l + 0.3 * f) 3 = 0.7 * l + 0.3 * f"
  using assms by (elim disjE; hypsubst; simp add: py_round_def round_half_even_def)

text \<open>
  Claim C2: for strings \<open>d\<close>, \<open>s\<close> and a non-empty string \<open>j\<close>, \<^verbatim>\<open>degree_match\<close> returns
  \<open>round(0.7 * levelScore + 0.3 * fieldRelevance(s, j), 3)\<close>, where the level score follows the
  table of the specification on the two normalized levels; and
  \<^verbatim>\<open>degree_match("B.Tech", "Computer Science", "Bachelor")\<close> is 0.97.
\<close>

theorem degree_match_formula:
  "j \<noteq> [] \<Longrightarrow>
   (\<exists>cand_level jd_level field_score.
      normalize_degree (PStr d) = Inr cand_level
    \<and> normalize_degree (PStr j) = Inr jd_level
    \<and> compute_field_relevance (PStr s) (PStr j) = Inr field_score
    \<and> degree_match (PStr d) (PStr s) (PStr j) =
        Inr (py_round
          (0.7 * (if cand_level = jd_level then 1.0
                  else if cand_level = ''master'' \<and> jd_level = ''bachelor'' then 1.0
                  else if cand_level = ''bachelor'' \<and> jd_level = ''master'' then 0.6
                  else if cand_level = ''diploma'' \<and> jd_level = ''bachelor'' then 0.5
                  else 0.4)
           + 0.3 * field_score) 3))
   \<and> degree_match (PStr ''B.Tech'') (PStr ''Computer Science'') (PStr ''Bachelor'') = Inr 0.97"
proof -
  assume j: "j \<noteq> []"
  obtain cl where cl: "normalize_degree (PStr d) = Inr cl"
    using normalize_degree_str by blast
  obtain jl where jl: "normalize_degree (PStr j) = Inr jl"
    using normalize_degree_str by blast
  obtain f where f: "compute_field_relevance (PStr s) (PStr j) = Inr f"
    using field_relevance_cases [of s j] by blast
  have m: "degree_match (PStr d) (PStr s) (PStr j) =
       Inr (py_round
         (0.7 * (if cl = jl then 1.0
                 else if cl = ''master'' \<and> jl = ''bachelor'' then 1.0
                 else if cl = ''bachelor'' \<and> jl = ''master'' then 0.6
                 else if cl = ''diploma'' \<and> jl = ''bachelor'' then 0.5
                 else 0.4)
          + 0.3 * f) 3)"
    using j by (simp add: degree_match_def cl jl f level_score_def)
  have e: "degree_match (PStr ''B.Tech'') (PStr ''Computer Science'') (PStr ''Bachelor'')
      = Inr 0.97"
    by code_simp
  from cl jl f m e show ?thesis by blast
qed

theorem degree_match_formula_witness:
  "''Master'' \<noteq> [] \<and> degree_match (PStr ''B.E'') (PStr ''Mechanical'') (PStr ''Master'') = Inr 0.57"
proof -
  have h: "''Master'' \<noteq> []" by simp
  have n1: "normalize_degree (PStr ''B.E'') = Inr ''bachelor''" by code_simp
  have n2: "normalize_degree (PStr ''Master'') = Inr ''master''" by code_simp
  have n3: "compute_field_relevance (PStr ''Mechanical'') (PStr ''Master'') = Inr 0.5"
    by code_simp
  have r: "py_round (0.7 * 0.6 + 0.3 * 0.5) 3 = 0.57"
    by (simp add: py_round_def round_half_even_def)
  from degree_match_formula [OF h, of "''B.E''" "''Mechanical''"]
  obtain cl jl f where a: "normalize_degree (PStr ''B.E'') = Inr cl"
    and b: "normalize_degree (PStr ''Master'') = Inr jl"
    and c: "compute_field_relevance (PStr ''Mechanical'') (PStr ''Master'') = Inr f"
    and m: "degree_match (PStr ''B.E'') (PStr ''Mechanical'') (PStr ''Master'') =
        Inr (py_round
          (0.7 * (if cl = jl then 1.0
                  else if cl = ''master'' \<and> jl = ''bachelor'' then 1.0
                  else if cl = ''bachelor'' \<and> jl = ''master'' then 0.6
                  else if cl = ''diploma'' \<and> jl = ''bachelor'' then 0.5
                  else 0.4)
           + 0.3 * f) 3)"
    by blast
  have cl: "cl = ''bachelor''" using a unfolding n1 by (rule Inr_inject [OF sym])
  have jl: "jl = ''master''" using b unfolding n2 by (rule Inr_inject [OF sym])
  have f: "f = 0.5" using c unfolding n3 by (rule Inr_inject [OF sym])
  have t: "(if ''bachelor'' = ''master'' then 1.0
            else if ''bachelor'' = ''master'' \<and> ''master'' = ''bachelor'' then 1.0
            else if ''bachelor'' = ''bachelor'' \<and> ''master'' = ''master'' then 0.6
            else if ''bachelor'' = ''diploma'' \<and> ''master'' = ''bachelor'' then 0.5
            else 0.4) = (0.6::rat)"
    by simp
  have v: "degree_match (PStr ''B.E'') (PStr ''Mechanical'') (PStr ''Master'') = Inr 0.57"
    using m unfolding cl jl f t r .
  from h v show ?thesis by (rule conjI)
qed

text \<open>
  Claim C7, as stated, fails: with an empty requirement the education score is 1.0, above
  0.97.
\<close>

theorem degree_match_bound_counterexample:
  "degree_match (PStr []) (PStr []) (PStr []) = Inr 1 \<and> \<not> (1::rat) \<le> 0.97"
  by (simp add: degree_match_def)

text \<open>
  Claim C7, amended: for all strings the education score of \<^verbatim>\<open>degree_match\<close> lies in
  [0, 1]; it lies in [0, 0.97] when the requirement has a character that is not white
  space.
\<close>

theorem degree_match_bound:
  "\<exists>r. degree_match (PStr d) (PStr s) (PStr j) = Inr r \<and> 0 \<le> r \<and> r \<le> 1
       \<and> (py_strip j \<noteq> [] \<longrightarrow> r \<le> 0.97)"
proof (cases "j = []")
  case True
  then show ?thesis by (simp add: degree_match_def py_strip_def)
next
  case False
  obtain cl where cl: "normalize_degree (PStr d) = Inr cl"
    using normalize_degree_str by blast
  obtain jl where jl: "normalize_degree (PStr j) = Inr jl"
    using normalize_degree_str by blast
  let ?l = "level_score cl jl"
  have l: "?l = 1.0 \<or> ?l = 0.6 \<or> ?l = 0.5 \<or> ?l = 0.4" by (rule level_score_cases)
  from field_relevance_cases [of s j]
  obtain f where f: "compute_field_relevance (PStr s) (PStr j) = Inr f"
    and fv: "f = 1.0 \<and> py_strip j = [] \<or> f = 0.9 \<or> f = 0.5" by blast
  from fv have fv': "f = 1.0 \<or> f = 0.9 \<or> f = 0.5" by blast
  have m0: "degree_match (PStr d) (PStr s) (PStr j) = Inr (py_round (0.7 * ?l + 0.3 * f) 3)"
    using False by (simp add: degree_match_def cl jl f)
  have m: "degree_match (PStr d) (PStr s) (PStr j) = Inr (0.7 * ?l + 0.3 * f)"
    unfolding m0 py_round_scores [OF l fv'] by (rule refl)
  have b: "0 \<le> 0.7 * ?l + 0.3 * f \<and> 0.7 * ?l + 0.3 * f \<le> 1
     \<and> (py_strip j \<noteq> [] \<longrightarrow> 0.7 * ?l + 0.3 * f \<le> 0.97)"
    using l fv by (elim disjE conjE; simp)
  from m b show ?thesis by blast
qed

theorem degree_match_bound_witness:
  "py_strip ''PhD'' \<noteq> []
   \<and> degree_match (PStr ''Diploma'') (PStr ''Arts'') (PStr ''PhD'') = Inr 0.43"
proof -
  have h: "py_strip ''PhD'' \<noteq> []" by code_simp
  have v: "degree_match (PStr ''Diploma'') (PStr ''Arts'') (PStr ''PhD'') = Inr 0.43"
    by code_simp
  from degree_match_bound [of "''Diploma''" "''Arts''" "''PhD''"] h v
  show ?thesis by blast
qed

text \<open>
  Claim C10: \<^verbatim>\<open>normalize_degree\<close> tests the bachelor, master and phd synonyms and then
  \<^verbatim>\<open>"diploma"\<close>, in this order, as substrings of the lowercased text, and the first test
  that succeeds gives the category. So a text with a bachelor synonym and a phd synonym is
  \<^verbatim>\<open>"bachelor"\<close>, as \<^verbatim>\<open>"Bachelor and PhD"\<close> is; and \<^verbatim>\<open>"Doctor of Medicine"\<close>, which holds
  the master synonym \<^verbatim>\<open>"me"\<close>, is \<^verbatim>\<open>"master"\<close>.
\<close>

theorem normalize_degree_order:
  "(list_ex (\<lambda>x. sublist x (py_lower t)) bachelor_terms \<longrightarrow>
      normalize_degree (PStr t) = Inr ''bachelor'')
   \<and> (\<not> list_ex (\<lambda>x. sublist x (py_lower t)) bachelor_terms \<and>
      list_ex (\<lambda>x. sublist x (py_lower t)) master_terms \<longrightarrow>
      normalize_degree (PStr t) = Inr ''master'')
   \<and> (\<not> list_ex (\<lambda>x. sublist x (py_lower t)) bachelor_terms \<and>
      \<not> list_ex (\<lambda>x. sublist x (py_lower t)) master_terms \<and>
      list_ex (\<lambda>x. sublist x (py_lower t)) phd_terms \<longrightarrow>
      normalize_degree (PStr t) = Inr ''phd'')
   \<and> (\<not> list_ex (\<lambda>x. sublist x (py_lower t)) bachelor_terms \<and>
      \<not> list_ex (\<lambda>x. sublist x (py_lower t)) master_terms \<and>
      \<not> list_ex (\<lambda>x. sublist x (py_lower t)) phd_terms \<and>
      sublist ''diploma'' (py_lower t) \<longrightarrow>
      normalize_degree (PStr t) = Inr ''diploma'')
   \<and> (list_ex (\<lambda>x. sublist x (py_lower t)) bachelor_terms \<and>
      list_ex (\<lambda>x. sublist x (py_lower t)) phd_terms \<longrightarrow>
      normalize_degree (PStr t) = Inr ''bachelor'')
   \<and> normalize_degree (PStr ''Bachelor and PhD'') = Inr ''bachelor''
   \<and> sublist ''me'' (py_lower ''Doctor of Medicine'')
   \<and> normalize_degree (PStr ''Doctor of Medicine'') = Inr ''master''"
proof -
  have ne: "list_ex (\<lambda>x. sublist x (py_lower t)) bachelor_terms
     \<or> list_ex (\<lambda>x. sublist x (py_lower t)) master_terms
     \<or> list_ex (\<lambda>x. sublist x (py_lower t)) phd_terms
     \<or> sublist ''diploma'' (py_lower t) \<Longrightarrow> t \<noteq> []"
    by (auto simp: py_lower_def bachelor_terms_def master_terms_def phd_terms_def)
  have e1: "normalize_degree (PStr ''Bachelor and PhD'') = Inr ''bachelor''" by code_simp
  have e2: "sublist ''me'' (py_lower ''Doctor of Medicine'')" by code_simp
  have e3: "normalize_degree (PStr ''Doctor of Medicine'') = Inr ''master''" by code_simp
  show ?thesis using ne e1 e2 e3
    by (auto simp: normalize_degree_def)
qed

theorem normalize_degree_order_witness:
  "list_ex (\<lambda>x. sublist x (py_lower ''B.Tech, then Doctorate'')) bachelor_terms
   \<and> list_ex (\<lambda>x. sublist x (py_lower ''B.Tech, then Doctorate'')) phd_terms
   \<and> normalize_degree (PStr ''B.Tech, then Doctorate'') = Inr ''bachelor''"
proof -
  have h1: "list_ex (\<lambda>x. sublist x (py_lower ''B.Tech, then Doctorate'')) bachelor_terms"
    by code_simp
  have h2: "list_ex (\<lambda>x. sublist x (py_lower ''B.Tech, then Doctorate'')) phd_terms"
    by code_simp
  from normalize_degree_order [of "''B.Tech, then Doctorate''"] h1 h2
  show ?thesis by blast
qed

section \<open>Properties of experience aggregation\<close>

text \<open>Zero is a double, and the operations keep it.\<close>

lemma fl_zero: "fl 0 = 0"
  by (simp add: fl_def)

lemma fadd_zero: "fadd 0 0 = 0"
  by (simp add: fadd_def fl_zero)

lemma fmul_zero: "fmul a 0 = 0"
  by (simp add: fmul_def fl_zero)

lemma fdiv_zero: "fdiv 0 b = 0"
  by (simp add: fdiv_def fl_zero)

lemma float_round_zero: "float_round 0 n = 0"
  by (simp add: float_round_def py_round_def round_half_even_def fl_zero)

lemma add_experience_record:
  "add_experience acc (record_py r) =
     Inr (if py_lower (exp_type r) = ''internship''
            then acc\<lparr>internship_months := fadd (internship_months acc) (duration_months r)\<rparr>
          else if py_lower (exp_type r) = ''apprentice''
            then acc\<lparr>apprentice_months := fadd (apprentice_months acc) (duration_months r)\<rparr>
          else if py_lower (exp_type r) = ''full time''
            then acc\<lparr>industry_months := fadd (industry_months acc) (duration_months r)\<rparr>
          else if py_lower (exp_type r) = ''part time''
            then acc\<lparr>part_time_months := fadd (part_time_months acc) (duration_months r)\<rparr>
          else if py_lower (exp_type r) = ''free lance''
            then acc\<lparr>freelance_months := fadd (freelance_months acc) (duration_months r)\<rparr>
          else acc\<lparr>apprentice_months :=
                 fadd (apprentice_months acc) (fmul (fl 0.5) (duration_months r))\<rparr>)"
proof (cases "exp_type r = []")
  case True
  then show ?thesis by (simp add: add_experience_def record_py_def py_lower_def)
next
  case False
  then show ?thesis by (simp add: add_experience_def record_py_def)
qed

text \<open>One turn of the loop adds the record's share to the bucket of its category only.\<close>

lemma add_experience_fields:
  "\<exists>acc'. add_experience acc (record_py r) = Inr acc'
     \<and> internship_months acc' =
         foldl fadd (internship_months acc) (category_months ''internship'' [r])
     \<and> apprentice_months acc' = foldl fadd (apprentice_months acc) (apprentice_months_of [r])
     \<and> industry_months acc' = foldl fadd (industry_months acc) (category_months ''full time'' [r])
     \<and> part_time_months acc' =
         foldl fadd (part_time_months acc) (category_months ''part time'' [r])
     \<and> freelance_months acc' =
         foldl fadd (freelance_months acc) (category_months ''free lance'' [r])"
  by (simp add: add_experience_record category_months_def apprentice_months_of_def
      apprentice_share_def recognized_def)

lemma category_months_Cons:
  "category_months c (r # recs) = category_months c [r] @ category_months c recs"
  by (simp add: category_months_def)

lemma apprentice_months_of_Cons:
  "apprentice_months_of (r # recs) = apprentice_months_of [r] @ apprentice_months_of recs"
  by (simp add: apprentice_months_of_def)

text \<open>The loop adds to every bucket the shares of its category in turn, from any state.\<close>

lemma experience_loop_records:
  "\<exists>m. experience_loop acc (map record_py recs) = Inr m
     \<and> internship_months m =
         foldl fadd (internship_months acc) (category_months ''internship'' recs)
     \<and> apprentice_months m = foldl fadd (apprentice_months acc) (apprentice_months_of recs)
     \<and> industry_months m = foldl fadd (industry_months acc) (category_months ''full time'' recs)
     \<and> part_time_months m =
         foldl fadd (part_time_months acc) (category_months ''part time'' recs)
     \<and> freelance_months m =
         foldl fadd (freelance_months acc) (category_months ''free lance'' recs)"
proof (induction recs arbitrary: acc)
  case Nil
  show ?case by (simp add: category_months_def apprentice_months_of_def)
next
  case (Cons r recs)
  from add_experience_fields [of acc r]
  obtain acc' where step: "add_experience acc (record_py r) = Inr acc'"
    and i: "internship_months acc' =
         foldl fadd (internship_months acc) (category_months ''internship'' [r])"
    and a: "apprentice_months acc' = foldl fadd (apprentice_months acc) (apprentice_months_of [r])"
    and f: "industry_months acc' =
         foldl fadd (industry_months acc) (category_months ''full time'' [r])"
    and p: "part_time_months acc' =
         foldl fadd (part_time_months acc) (category_months ''part time'' [r])"
    and l: "freelance_months acc' =
         foldl fadd (freelance_months acc) (category_months ''free lance'' [r])"
    by blast
  from Cons.IH [of acc'] obtain m where m: "experience_loop acc' (map record_py recs) = Inr m"
     and mi: "internship_months m =
         foldl fadd (internship_months acc') (category_months ''internship'' recs)"
     and ma: "apprentice_months m = foldl fadd (apprentice_months acc') (apprentice_months_of recs)"
     and mf: "industry_months m =
         foldl fadd (industry_months acc') (category_months ''full time'' recs)"
     and mp: "part_time_months m =
         foldl fadd (part_time_months acc') (category_months ''part time'' recs)"
     and ml: "freelance_months m =
         foldl fadd (freelance_months acc') (category_months ''free lance'' recs)"
    by blast
  have "experience_loop acc (map record_py (r # recs)) = Inr m"
    by (simp add: step m)
  moreover have "internship_months m =
      foldl fadd (internship_months acc) (category_months ''internship'' (r # recs))"
    unfolding mi i category_months_Cons [of _ r recs] by simp
  moreover have "apprentice_months m =
      foldl fadd (apprentice_months acc) (apprentice_months_of (r # recs))"
    unfolding ma a apprentice_months_of_Cons [of r recs] by simp
  moreover have "industry_months m =
      foldl fadd (industry_months acc) (category_months ''full time'' (r # recs))"
    unfolding mf f category_months_Cons [of _ r recs] by simp
  moreover have "part_time_months m =
      foldl fadd (part_time_months acc) (category_months ''part time'' (r # recs))"
    unfolding mp p category_months_Cons [of _ r recs] by simp
  moreover have "freelance_months m =
      foldl fadd (freelance_months acc) (category_months ''free lance'' (r # recs))"
    unfolding ml l category_months_Cons [of _ r recs] by simp
  ultimately show ?case by blast
qed

lemma fmul_commute: "fmul a b = fmul b a"
  by (simp add: fmul_def mult.commute)

text \<open>
  Claim C3: for every sequence of experience records the aggregator returns, as
  \<^verbatim>\<open>effective_years\<close>, the sum \<open>industry + internship * 0.5 + apprentice * 0.6 +
  part_time * 0.4 + freelance * 0.7\<close> rounded to 2 decimals, where each bucket is the sum of
  the months of its category (the type compared without regard to case) divided by 12 and
  the apprentice bucket also takes half the months of every record of an unrecognized type.
  The arithmetic is the code's floating point: sums from left to right, each operation and
  the final rounding giving the nearest double. The factor 1.0 of the industry years changes
  no float and is left out, as in the code. For 24 months full time and 6 months internship
  the effective years are 2.25; for 3 months \<^verbatim>\<open>"Free Lance"\<close> they are the double 0.17 (the
  product of the doubles 0.7 and 0.25 lies below 0.175); for 12 months of the unrecognized
  type \<^verbatim>\<open>"contract"\<close> the apprentice years are 0.5.
\<close>

theorem effective_years_weighted_sum:
  "months_in_range recs \<Longrightarrow>
   (\<exists>b. compute_experience_breakdown (PDict [(''experience'', PList (map record_py recs))])
          = Inr b
      \<and> effective_years b =
          float_round
            (fadd (fadd (fadd (fadd
               (fdiv (float_sum (category_months ''full time'' recs)) 12)
               (fmul (fdiv (float_sum (category_months ''internship'' recs)) 12) (fl 0.5)))
               (fmul (fdiv (float_sum (apprentice_months_of recs)) 12) (fl 0.6)))
               (fmul (fdiv (float_sum (category_months ''part time'' recs)) 12) (fl 0.4)))
               (fmul (fdiv (float_sum (category_months ''free lance'' recs)) 12) (fl 0.7))) 2)
   \<and> compute_experience_breakdown
       (PDict [(''experience'', PList
          [PDict [(''type'', PStr ''full time''), (''duration_months'', PNum 24)],
           PDict [(''type'', PStr ''internship''), (''duration_months'', PNum 6)]])])
     = Inr \<lparr>internship_years = 0.5, apprentice_years = 0, industry_years = 2,
            part_time_years = 0, freelance_years = 0, effective_years = 2.25\<rparr>
   \<and> compute_experience_breakdown
       (PDict [(''experience'', PList
          [PDict [(''type'', PStr ''Free Lance''), (''duration_months'', PNum 3)]])])
     = Inr \<lparr>internship_years = 0, apprentice_years = 0, industry_years = 0,
            part_time_years = 0, freelance_years = 0.25, effective_years = fl 0.17\<rparr>
   \<and> compute_experience_breakdown
       (PDict [(''experience'', PList
          [PDict [(''type'', PStr ''contract''), (''duration_months'', PNum 12)]])])
     = Inr \<lparr>internship_years = 0, apprentice_years = 0.5, industry_years = 0,
            part_time_years = 0, freelance_years = 0, effective_years = fl 0.3\<rparr>"
proof -
  let ?z = "\<lparr>internship_months = 0, apprentice_months = 0, industry_months = 0,
                        part_time_months = 0, freelance_months = 0\<rparr>"
  from experience_loop_records [of ?z recs]
  obtain m where m: "experience_loop ?z (map record_py recs) = Inr m"
     and mi: "internship_months m = float_sum (category_months ''internship'' recs)"
     and ma: "apprentice_months m = float_sum (apprentice_months_of recs)"
     and mf: "industry_months m = float_sum (category_months ''full time'' recs)"
     and mp: "part_time_months m = float_sum (category_months ''part time'' recs)"
     and ml: "freelance_months m = float_sum (category_months ''free lance'' recs)"
    unfolding float_sum_def by auto
  have g: "\<exists>b. compute_experience_breakdown
                 (PDict [(''experience'', PList (map record_py recs))]) = Inr b
      \<and> effective_years b =
          float_round
            (fadd (fadd (fadd (fadd
               (fdiv (float_sum (category_months ''full time'' recs)) 12)
               (fmul (fdiv (float_sum (category_months ''internship'' recs)) 12) (fl 0.5)))
               (fmul (fdiv (float_sum (apprentice_months_of recs)) 12) (fl 0.6)))
               (fmul (fdiv (float_sum (category_months ''part time'' recs)) 12) (fl 0.4)))
               (fmul (fdiv (float_sum (category_months ''free lance'' recs)) 12) (fl 0.7))) 2"
    unfolding compute_experience_breakdown_def experiences_of_def
    by (simp add: m Let_def mi ma mf mp ml fmul_commute [of "fl _"])
  have e1: "compute_experience_breakdown
       (PDict [(''experience'', PList
          [PDict [(''type'', PStr ''full time''), (''duration_months'', PNum 24)],
           PDict [(''type'', PStr ''internship''), (''duration_months'', PNum 6)]])])
     = Inr \<lparr>internship_years = 0.5, apprentice_years = 0, industry_years = 2,
            part_time_years = 0, freelance_years = 0, effective_years = 2.25\<rparr>"
    by code_simp
  have e2: "compute_experience_breakdown
       (PDict [(''experience'', PList
          [PDict [(''type'', PStr ''Free Lance''), (''duration_months'', PNum 3)]])])
     = Inr \<lparr>internship_years = 0, apprentice_years = 0, industry_years = 0,
            part_time_years = 0, freelance_years = 0.25, effective_years = fl 0.17\<rparr>"
    by code_simp
  have e3: "compute_experience_breakdown
       (PDict [(''experience'', PList
          [PDict [(''type'', PStr ''contract''), (''duration_months'', PNum 12)]])])
     = Inr \<lparr>internship_years = 0, apprentice_years = 0.5, industry_years = 0,
            part_time_years = 0, freelance_years = 0, effective_years = fl 0.3\<rparr>"
    by code_simp
  from g e1 e2 e3 show ?thesis by blast
qed

theorem effective_years_weighted_sum_witness:
  "months_in_range
     [\<lparr>exp_type = ''Part Time'', duration_months = 5\<rparr>,
      \<lparr>exp_type = ''volunteer'', duration_months = 3\<rparr>,
      \<lparr>exp_type = ''apprentice'', duration_months = 7 / 2\<rparr>]
   \<and> float_sum (apprentice_months_of
       [\<lparr>exp_type = ''Part Time'', duration_months = 5\<rparr>,
        \<lparr>exp_type = ''volunteer'', duration_months = 3\<rparr>,
        \<lparr>exp_type = ''apprentice'', duration_months = 7 / 2\<rparr>]) = 5
   \<and> compute_experience_breakdown
       (PDict [(''experience'', PList
          [PDict [(''type'', PStr ''Part Time''), (''duration_months'', PNum 5)],
           PDict [(''type'', PStr ''volunteer''), (''duration_months'', PNum 3)],
           PDict [(''type'', PStr ''apprentice''), (''duration_months'', PNum (7 / 2))]])])
     = Inr \<lparr>internship_years = 0, apprentice_years = fl 0.42, industry_years = 0,
            part_time_years = fl 0.42, freelance_years = 0, effective_years = fl 0.42\<rparr>"
proof -
  let ?recs = "[\<lparr>exp_type = ''Part Time'', duration_months = 5\<rparr>,
      \<lparr>exp_type = ''volunteer'', duration_months = 3\<rparr>,
      \<lparr>exp_type = ''apprentice'', duration_months = 7 / 2\<rparr>]"
  have h: "months_in_range ?recs" by code_simp
  have s: "float_sum (apprentice_months_of ?recs) = 5" by code_simp
  have v: "compute_experience_breakdown
       (PDict [(''experience'', PList
          [PDict [(''type'', PStr ''Part Time''), (''duration_months'', PNum 5)],
           PDict [(''type'', PStr ''volunteer''), (''duration_months'', PNum 3)],
           PDict [(''type'', PStr ''apprentice''), (''duration_months'', PNum (7 / 2))]])])
     = Inr \<lparr>internship_years = 0, apprentice_years = fl 0.42, industry_years = 0,
            part_time_years = fl 0.42, freelance_years = 0, effective_years = fl 0.42\<rparr>"
    by code_simp
  from effective_years_weighted_sum [OF h] h s v show ?thesis by blast
qed

section \<open>Properties of the stages\<close>

text \<open>A run of the matching stage that returns has combined the three scores.\<close>

lemma matching_final:
  "candidate_job_matching loads grader candidate jd = Inr b \<Longrightarrow>
   \<exists>v x. py_get (skill_match_score b) ''final_skill_match_score'' (PNum 0) = Inr v
        \<and> num_of v = Some x
        \<and> final_match_score b =
            0.20 * experience_score b + 0.10 * education_score b + 0.70 * x"
  unfolding candidate_job_matching_def extract_skill_score_def final_score_def Let_def
  by (auto split: sum.splits option.splits prod.splits)

lemma matching_raw:
  "candidate_job_matching loads grader candidate jd = Inr b \<Longrightarrow>
   \<exists>payload result. loads (grader payload) = Some result
        \<and> skill_match_score b = unwrap_skill_match result"
  unfolding candidate_job_matching_def extract_skill_score_def final_score_def Let_def
  by (fastforce split: sum.splits option.splits prod.splits)

lemma breakdown_error_record:
  "compute_experience_breakdown (error_record m) =
     Inr \<lparr>internship_years = 0, apprentice_years = 0, industry_years = 0,
            part_time_years = 0, freelance_years = 0, effective_years = 0\<rparr>"
  by (simp add: compute_experience_breakdown_def experiences_of_def error_record_def
      fdiv_zero fmul_zero fadd_zero float_round_zero)

text \<open>
  With both extraction answers unparsable, the run reaches the grader and returns: the two
  degraded records state no requirement, so experience and education score 1.0.
\<close>

lemma degraded_run:
  assumes "loads cm = None" "loads jm = None"
    and "\<And>p. loads (grader p) = Some (PDict d)"
    and "map_of d ''final_skill_match_score'' = Some (PNum x)"
  shows "app_invoke loads grader links cm jm =
     Inr \<lparr>experience_score = 1.0, education_score = 1.0, skill_match_score = PDict d,
          final_match_score = 0.30 + 0.70 * x\<rparr>"
proof -
  have c: "candidate_info_extraction loads links cm = Inr (error_record cm)"
    using assms(1)
    by (simp add: candidate_info_extraction_def parse_or_error_def error_record_def)
  have j: "job_desc_extraction loads jm = error_record jm"
    using assms(2) by (simp add: job_desc_extraction_def parse_or_error_def)
  have e: "education_of (error_record cm) = Inr (PStr [], PStr [])"
    by (simp add: education_of_def error_record_def)
  have "\<exists>p. build_payload
          [(''error'', PStr ''Invalid JSON returned''), (''raw_output'', PStr cm)]
          [(''error'', PStr ''Invalid JSON returned''), (''raw_output'', PStr jm)] = Inr p"
    by (simp add: build_payload_def dict_get_def Let_def)
  then obtain p where p: "build_payload
          [(''error'', PStr ''Invalid JSON returned''), (''raw_output'', PStr cm)]
          [(''error'', PStr ''Invalid JSON returned''), (''raw_output'', PStr jm)] = Inr p"
    by blast
  have x: "extract_skill_score (PDict d) = Inr (PDict d, PNum x)"
    using assms(4) by (simp add: extract_skill_score_def unwrap_skill_match_def)
  have m: "candidate_job_matching loads grader (error_record cm) (error_record jm) =
     Inr \<lparr>experience_score = 1.0, education_score = 1.0, skill_match_score = PDict d,
          final_match_score = 0.30 + 0.70 * x\<rparr>"
    unfolding candidate_job_matching_def breakdown_error_record e
    by (simp add: error_record_def p assms(3) x experience_match_def degree_match_def
        final_score_def)
  show ?thesis unfolding app_invoke_def c j using m by simp
qed

text \<open>
  Claim C1: the final score is \<open>0.20 * e + 0.10 * d + 0.70 * s\<close> on the three sub-scores,
  with weights that sum to 1.0; it is 0.30 on (1.0, 1.0, 0) and 1.0 on (1.0, 1.0, 1.0); and
  every bundle the matching stage returns has this combination of its own experience score,
  education score and the number read from its skill object as final score.
\<close>

theorem final_score_weights:
  "final_score e d s = 0.20 * e + 0.10 * d + 0.70 * s
   \<and> (0.20::rat) + 0.10 + 0.70 = 1.0
   \<and> final_score 1.0 1.0 0 = 0.30
   \<and> final_score 1.0 1.0 1.0 = 1.0
   \<and> (candidate_job_matching loads grader candidate jd = Inr b \<longrightarrow>
       (\<exists>v x. py_get (skill_match_score b) ''final_skill_match_score'' (PNum 0) = Inr v
          \<and> num_of v = Some x
          \<and> final_match_score b =
              0.20 * experience_score b + 0.10 * education_score b + 0.70 * x))"
  using matching_final [of loads grader candidate jd b]
  by (simp add: final_score_def)

theorem final_score_weights_witness:
  "candidate_job_matching
       (\<lambda>s. if s = ''graded''
             then Some (PDict [(''final_skill_match_score'', PNum 0.8)]) else None)
       (\<lambda>payload. ''graded'')
       (PDict [(''education'', PList [PDict [(''degree'', PStr ''Bachelor''),
                                             (''stream'', PStr ''Information Technology'')]]),
               (''experience'', PList [PDict [(''type'', PStr ''full time''),
                                              (''duration_months'', PNum 24)]])])
       (PDict [(''experience_required'', PStr ''2+ years''),
               (''education_required'', PStr ''Bachelor'')])
     = Inr \<lparr>experience_score = 1.0, education_score = 0.97,
            skill_match_score = PDict [(''final_skill_match_score'', PNum 0.8)],
            final_match_score = 0.857\<rparr>
   \<and> (0.857::rat) = 0.20 * 1.0 + 0.10 * 0.97 + 0.70 * 0.8"
proof -
  let ?loads = "\<lambda>s. if s = ''graded''
             then Some (PDict [(''final_skill_match_score'', PNum 0.8)]) else None"
  let ?grader = "\<lambda>payload::pyval. ''graded''"
  let ?candidate = "PDict [(''education'', PList [PDict [(''degree'', PStr ''Bachelor''),
                                             (''stream'', PStr ''Information Technology'')]]),
               (''experience'', PList [PDict [(''type'', PStr ''full time''),
                                              (''duration_months'', PNum 24)]])]"
  let ?jd = "PDict [(''experience_required'', PStr ''2+ years''),
               (''education_required'', PStr ''Bachelor'')]"
  let ?b = "\<lparr>experience_score = 1.0, education_score = 0.97,
            skill_match_score = PDict [(''final_skill_match_score'', PNum 0.8)],
            final_match_score = 0.857\<rparr>"
  have run: "candidate_job_matching ?loads ?grader ?candidate ?jd = Inr ?b"
    by code_simp
  from final_score_weights [of 1 1 1 ?loads ?grader ?candidate ?jd ?b] run
  show ?thesis by simp
qed

text \<open>
  Claim C8, as stated, fails: a grader result that is well-formed JSON but neither an object
  nor a sequence that is empty or starts with an object makes the extraction raise, as the
  number 5 and the sequence \<^verbatim>\<open>["n/a"]\<close> do.
\<close>

theorem skill_score_extraction_counterexample:
  "extract_skill_score (PNum 5) = Inl AttributeError
   \<and> extract_skill_score (PList [PStr ''n/a'']) = Inl AttributeError"
  by (simp add: extract_skill_score_def unwrap_skill_match_def)

text \<open>
  Claim C8, amended: for every grader result that is an object, an empty sequence, or a
  sequence whose first element is an object, the extraction does not raise: of a sequence it
  takes the first element (an empty object when the sequence is empty), then reads
  \<^verbatim>\<open>final_skill_match_score\<close>, 0 if absent; an empty sequence yields score 0; and the object
  read is what a returned bundle holds as \<^verbatim>\<open>skill_match_score\<close>.
\<close>

theorem skill_score_extraction:
  "extract_skill_score (PDict d) =
     Inr (PDict d, case map_of d ''final_skill_match_score'' of Some v \<Rightarrow> v | None \<Rightarrow> PNum 0)
   \<and> extract_skill_score (PList (PDict d # rest)) =
     Inr (PDict d, case map_of d ''final_skill_match_score'' of Some v \<Rightarrow> v | None \<Rightarrow> PNum 0)
   \<and> extract_skill_score (PList []) = Inr (PDict [], PNum 0)
   \<and> (candidate_job_matching loads grader candidate jd = Inr b \<longrightarrow>
       (\<exists>payload result. loads (grader payload) = Some result
          \<and> skill_match_score b = unwrap_skill_match result))"
  using matching_raw [of loads grader candidate jd b]
  by (simp add: extract_skill_score_def unwrap_skill_match_def)

theorem skill_score_extraction_witness:
  "candidate_job_matching (\<lambda>s. if s = ''[]'' then Some (PList []) else None)
       (\<lambda>payload. ''[]'') (PDict []) (PDict [])
     = Inr \<lparr>experience_score = 1.0, education_score = 1.0, skill_match_score = PDict [],
            final_match_score = 0.30\<rparr>
   \<and> unwrap_skill_match (PList []) = PDict []"
proof -
  let ?loads = "\<lambda>s. if s = ''[]'' then Some (PList []) else None"
  let ?grader = "\<lambda>payload::pyval. ''[]''"
  let ?b = "\<lparr>experience_score = 1.0, education_score = 1.0, skill_match_score = PDict [],
            final_match_score = 0.30\<rparr>"
  have run: "candidate_job_matching ?loads ?grader (PDict []) (PDict []) = Inr ?b"
    by code_simp
  from skill_score_extraction [of "[]" "[]" ?loads ?grader "PDict []" "PDict []" ?b] run
  show ?thesis by (simp add: unwrap_skill_match_def)
qed

text \<open>
  Claim C9: when the answer of the extraction capability does not parse as JSON, the
  candidate stage and the job stage do not raise and return the record
  \<^verbatim>\<open>{error: "Invalid JSON returned", raw_output: <the answer>}\<close>; the run goes on to the
  matching stage with that record, and with both answers unparsable it returns a bundle.
\<close>

theorem invalid_json_degraded_record:
  "(loads cm = None \<longrightarrow>
      candidate_info_extraction loads links cm =
        Inr (PDict [(''error'', PStr ''Invalid JSON returned''), (''raw_output'', PStr cm)])
      \<and> app_invoke loads grader links cm jm =
          candidate_job_matching loads grader
            (PDict [(''error'', PStr ''Invalid JSON returned''), (''raw_output'', PStr cm)])
            (job_desc_extraction loads jm))
   \<and> (loads jm = None \<longrightarrow>
      job_desc_extraction loads jm =
        PDict [(''error'', PStr ''Invalid JSON returned''), (''raw_output'', PStr jm)])
   \<and> (loads cm = None \<and> loads jm = None \<and> (\<forall>p. loads (grader p) = Some (PDict d))
        \<and> map_of d ''final_skill_match_score'' = Some (PNum x) \<longrightarrow>
      app_invoke loads grader links cm jm =
        Inr \<lparr>experience_score = 1.0, education_score = 1.0, skill_match_score = PDict d,
             final_match_score = 0.30 + 0.70 * x\<rparr>)"
proof -
  have a: "loads cm = None \<longrightarrow>
      candidate_info_extraction loads links cm =
        Inr (PDict [(''error'', PStr ''Invalid JSON returned''), (''raw_output'', PStr cm)])
      \<and> app_invoke loads grader links cm jm =
          candidate_job_matching loads grader
            (PDict [(''error'', PStr ''Invalid JSON returned''), (''raw_output'', PStr cm)])
            (job_desc_extraction loads jm)"
    by (simp add: app_invoke_def candidate_info_extraction_def parse_or_error_def
        error_record_def)
  have b: "loads jm = None \<longrightarrow>
      job_desc_extraction loads jm =
        PDict [(''error'', PStr ''Invalid JSON returned''), (''raw_output'', PStr jm)]"
    by (simp add: job_desc_extraction_def parse_or_error_def error_record_def)
  have c: "loads cm = None \<and> loads jm = None \<and> (\<forall>p. loads (grader p) = Some (PDict d))
        \<and> map_of d ''final_skill_match_score'' = Some (PNum x) \<longrightarrow>
      app_invoke loads grader links cm jm =
        Inr \<lparr>experience_score = 1.0, education_score = 1.0, skill_match_score = PDict d,
             final_match_score = 0.30 + 0.70 * x\<rparr>"
    using degraded_run [of loads cm jm grader d x links] by blast
  from a b c show ?thesis by blast
qed

theorem invalid_json_degraded_record_witness:
  "(\<lambda>s. if s = ''graded''
         then Some (PDict [(''final_skill_match_score'', PNum 1)]) else None) ''<html>'' = None
   \<and> app_invoke
       (\<lambda>s. if s = ''graded''
             then Some (PDict [(''final_skill_match_score'', PNum 1)]) else None)
       (\<lambda>payload. ''graded'')
       \<lparr>profile_info = \<lparr>linkedin = [], mail = [], medium = [], contact = [], location = []\<rparr>,
        projects = []\<rparr>
       ''<html>'' ''Sorry, no.''
     = Inr \<lparr>experience_score = 1.0, education_score = 1.0,
            skill_match_score = PDict [(''final_skill_match_score'', PNum 1)],
            final_match_score = 0.30 + 0.70 * 1\<rparr>"
proof -
  let ?loads = "\<lambda>s. if s = ''graded''
         then Some (PDict [(''final_skill_match_score'', PNum 1)]) else None"
  let ?grader = "\<lambda>payload::pyval. ''graded''"
  let ?links = "\<lparr>profile_info =
        \<lparr>linkedin = [], mail = [], medium = [], contact = [], location = []\<rparr>, projects = []\<rparr>"
  let ?d = "[(''final_skill_match_score'', PNum 1)]"
  have h1: "?loads ''<html>'' = None" by simp
  have h2: "?loads ''Sorry, no.'' = None" by simp
  have h3: "\<forall>p. ?loads (?grader p) = Some (PDict ?d)" by simp
  have h4: "map_of ?d ''final_skill_match_score'' = Some (PNum 1)" by simp
  from invalid_json_degraded_record
         [of ?loads "''<html>''" ?links ?grader "''Sorry, no.''" ?d 1]
  have "?loads ''<html>'' = None \<and> ?loads ''Sorry, no.'' = None
        \<and> (\<forall>p. ?loads (?grader p) = Some (PDict ?d))
        \<and> map_of ?d ''final_skill_match_score'' = Some (PNum 1) \<longrightarrow>
      app_invoke ?loads ?grader ?links ''<html>'' ''Sorry, no.'' =
        Inr \<lparr>experience_score = 1.0, education_score = 1.0, skill_match_score = PDict ?d,
             final_match_score = 0.30 + 0.70 * 1\<rparr>"
    by (elim conjE)
  with h1 h2 h3 h4 show ?thesis by blast
qed

end
